theory Spec2Isabelle
  imports
    Complex_Main
    "HOL-Library.AList"
    "HOL-Library.Sublist"
    "HOL-Library.Char_ord"
    "HOL-Library.List_Lexorder"
begin

section \<open>JavaScript values used by server.js\<close>

text \<open>
  A JavaScript number is either finite, one of the two infinities, or NaN. Finite numbers
  are idealised as exact rationals: binary64 rounding error, overflow and the sign of zero
  are not part of this development. What is kept is the part of the arithmetic that the
  handlers of server.js depend on: a division by zero never throws, \<open>0 / 0\<close> is NaN,
  every operation on NaN is NaN, and \<open>Math.round\<close> rounds half-way cases upwards.
\<close>

datatype jsnum = Num rat | PosInf | NegInf | NaN

fun js_neg :: "jsnum \<Rightarrow> jsnum" where
  "js_neg (Num a) = Num (- a)"
| "js_neg PosInf = NegInf"
| "js_neg NegInf = PosInf"
| "js_neg NaN = NaN"

text \<open>\<open>a * b\<close>\<close>

fun js_mul :: "jsnum \<Rightarrow> jsnum \<Rightarrow> jsnum" where
  "js_mul (Num a) (Num b) = Num (a * b)"
| "js_mul NaN _ = NaN"
| "js_mul _ NaN = NaN"
| "js_mul (Num a) i = (if a = 0 then NaN else if 0 < a then i else js_neg i)"
| "js_mul i (Num b) = (if b = 0 then NaN else if 0 < b then i else js_neg i)"
| "js_mul PosInf i = i"
| "js_mul NegInf i = js_neg i"

text \<open>\<open>a / b\<close>; every divisor in server.js is a \<open>length\<close> or a counter, so a zero divisor is \<open>+0\<close>.\<close>

fun js_div :: "jsnum \<Rightarrow> jsnum \<Rightarrow> jsnum" where
  "js_div (Num a) (Num b) =
     (if b \<noteq> 0 then Num (a / b)
      else if a = 0 then NaN
      else if 0 < a then PosInf else NegInf)"
| "js_div NaN _ = NaN"
| "js_div _ NaN = NaN"
| "js_div (Num a) _ = Num 0"
| "js_div i (Num b) = (if 0 \<le> b then i else js_neg i)"
| "js_div _ _ = NaN"

text \<open>\<open>Math.round(x)\<close> is \<open>floor(x + 0.5)\<close>: ties go towards \<open>+\<infinity>\<close>.\<close>

definition Math_round :: "rat \<Rightarrow> int" where
  "Math_round x = \<lfloor>x + 1 / 2\<rfloor>"

fun js_round :: "jsnum \<Rightarrow> jsnum" where
  "js_round (Num a) = Num (of_int (Math_round a))"
| "js_round PosInf = PosInf"
| "js_round NegInf = NegInf"
| "js_round NaN = NaN"

text \<open>
  A query parameter is \<open>undefined\<close> (\<open>None\<close>) or a string. \<open>!x\<close> holds for \<open>undefined\<close>
  and for the empty string.
\<close>

type_synonym param = "string option"

definition js_not :: "param \<Rightarrow> bool" where
  "js_not p = (case p of None \<Rightarrow> True | Some s \<Rightarrow> s = [])"

text \<open>
  A \<open>Date\<close> object is its time value: milliseconds since the epoch, or NaN (\<open>None\<close>, an
  Invalid Date). Which strings \<open>new Date(s)\<close> accepts beyond the ISO forms is left to the
  host by the language, so the string parser is a parameter \<open>P\<close> of every function that
  parses a date. \<open>new Date(undefined)\<close> is an Invalid Date.
\<close>

type_synonym jsdate = "int option"
type_synonym date_parser = "string \<Rightarrow> jsdate"

definition parseDate :: "date_parser \<Rightarrow> param \<Rightarrow> jsdate" where
  "parseDate P dateString = (case dateString of None \<Rightarrow> None | Some s \<Rightarrow> P s)"

text \<open>
  \<open>a >= b\<close> and \<open>a <= b\<close> on two Date objects compare the time values as numbers; a
  comparison with NaN is false.
\<close>

definition date_ge :: "jsdate \<Rightarrow> jsdate \<Rightarrow> bool" where
  "date_ge a b = (case a of None \<Rightarrow> False | Some x \<Rightarrow> (case b of None \<Rightarrow> False | Some y \<Rightarrow> y \<le> x))"

definition date_le :: "jsdate \<Rightarrow> jsdate \<Rightarrow> bool" where
  "date_le a b = (case a of None \<Rightarrow> False | Some x \<Rightarrow> (case b of None \<Rightarrow> False | Some y \<Rightarrow> x \<le> y))"

section \<open>Sales records\<close>

text \<open>One element of sales.json, with the fields the handlers read.\<close>

record SalesRecord =
  OrderDate :: string
  CustomerID :: string
  CustomerName :: string
  Segment :: string
  City :: string
  State :: string
  Region :: string
  Category :: string
  SubCategory :: string
  ProductName :: string
  Sales :: rat
  Quantity :: int
  Discount :: rat
  Profit :: rat

section \<open>filterData and the customer filter\<close>

definition filterData ::
  "date_parser \<Rightarrow> SalesRecord list \<Rightarrow> param \<Rightarrow> param \<Rightarrow> param \<Rightarrow> SalesRecord list" where
  "filterData P data state fromDate toDate =
     filter (\<lambda>item.
       let itemDate = parseDate P (Some (OrderDate item));
           stateMatch = (js_not state \<or> Some (State item) = state);
           dateMatch =
             ((js_not fromDate \<or> date_ge itemDate (parseDate P fromDate)) \<and>
              (js_not toDate \<or> date_le itemDate (parseDate P toDate)))
       in stateMatch \<and> dateMatch) data"

text \<open>
  The second pass of /api/dashboard-data and /api/sales-trend:
  \<open>if (customerId) filteredData = filteredData.filter(item => item["Customer ID"] === customerId)\<close>.
\<close>

definition filterCustomer :: "SalesRecord list \<Rightarrow> param \<Rightarrow> SalesRecord list" where
  "filterCustomer filteredData customerId =
     (if \<not> js_not customerId
      then filter (\<lambda>item. Some (CustomerID item) = customerId) filteredData
      else filteredData)"

definition applyFilters ::
  "date_parser \<Rightarrow> SalesRecord list \<Rightarrow> param \<Rightarrow> param \<Rightarrow> param \<Rightarrow> param \<Rightarrow> SalesRecord list" where
  "applyFilters P data state fromDate toDate customerId =
     filterCustomer (filterData P data state fromDate toDate) customerId"

section \<open>Dashboard cards\<close>

record cards =
  totalSales :: int
  quantitySold :: int
  discountPercentage :: jsnum
  profit :: int

definition avgDiscount :: "SalesRecord list \<Rightarrow> jsnum" where
  "avgDiscount filteredData =
     (let discountData = filter (\<lambda>item. 0 < Discount item) filteredData
      in if 0 < length discountData
         then js_mul
                (js_div (Num (foldl (\<lambda>sum item. sum + Discount item) 0 discountData))
                        (Num (of_nat (length discountData))))
                (Num 100)
         else Num 0)"

definition dashboard_cards :: "SalesRecord list \<Rightarrow> cards" where
  "dashboard_cards filteredData =
     (let totalSales = foldl (\<lambda>sum item. sum + Sales item) 0 filteredData;
          totalQuantity = foldl (\<lambda>sum item. sum + Quantity item) 0 filteredData;
          totalProfit = foldl (\<lambda>sum item. sum + Profit item) 0 filteredData
      in \<lparr> totalSales = Math_round totalSales,
           quantitySold = totalQuantity,
           discountPercentage = js_div (js_round (js_mul (avgDiscount filteredData) (Num 10))) (Num 10),
           profit = Math_round totalProfit \<rparr>)"

section \<open>Arrays, sets and plain objects\<close>

text \<open>
  \<open>Array.prototype.sort(cmp)\<close> is stable. For a comparator that is a consistent ordering
  the result is the one stable sorted arrangement, which inserting the elements from the
  right computes; an element goes in front of the first element it does not compare
  greater than. (With an inconsistent comparator the language leaves the order to the host.)
\<close>

fun insert_by :: "('a \<Rightarrow> 'a \<Rightarrow> int) \<Rightarrow> 'a \<Rightarrow> 'a list \<Rightarrow> 'a list" where
  "insert_by cmp x [] = [x]"
| "insert_by cmp x (y # ys) = (if cmp x y \<le> 0 then x # y # ys else y # insert_by cmp x ys)"

definition Array_sort :: "('a \<Rightarrow> 'a \<Rightarrow> int) \<Rightarrow> 'a list \<Rightarrow> 'a list" where
  "Array_sort cmp xs = foldr (insert_by cmp) xs []"

text \<open>\<open>xs.slice(0, n)\<close>\<close>

definition slice0 :: "nat \<Rightarrow> 'a list \<Rightarrow> 'a list" where
  "slice0 n xs = take n xs"

text \<open>
  A \<open>Set\<close> keeps its elements in insertion order and ignores a value that it already
  holds. Whether it holds a value is decided by SameValueZero, given here as \<open>same\<close>:
  for strings that is equality of the contents, for objects it is identity of the
  reference.
\<close>

definition Set_add :: "('a \<Rightarrow> 'a \<Rightarrow> bool) \<Rightarrow> 'a list \<Rightarrow> 'a \<Rightarrow> 'a list" where
  "Set_add same s x = (if list_ex (same x) s then s else s @ [x])"

definition new_Set :: "('a \<Rightarrow> 'a \<Rightarrow> bool) \<Rightarrow> 'a list \<Rightarrow> 'a list" where
  "new_Set same xs = foldl (Set_add same) [] xs"

text \<open>
  An object created by an object literal lives at a fresh address. \<open>xs.map(f)\<close> with a
  callback that returns an object literal allocates one object per element; the \<open>i\<close>-th
  one is given address \<open>i\<close>.
\<close>

type_synonym 'a object = "nat \<times> 'a"

definition same_object :: "'a object \<Rightarrow> 'a object \<Rightarrow> bool" where
  "same_object a b = (fst a = fst b)"

definition map_new :: "('a \<Rightarrow> 'b) \<Rightarrow> 'a list \<Rightarrow> 'b object list" where
  "map_new f xs = zip [0 ..< length xs] (map f xs)"

text \<open>
  A plain object used as a dictionary: its own properties, in order of creation.
  \<open>AList.update k v obj\<close> is the assignment \<open>obj[k] = v\<close>: it overwrites in place or
  appends a new property. Enumeration (\<open>Object.entries\<close>, \<open>Object.values\<close>) lists the
  keys that are array indices first, in ascending numeric order, and then the other
  keys in order of creation.
\<close>

type_synonym 'v obj = "(string \<times> 'v) list"

definition is_digit :: "char \<Rightarrow> bool" where
  "is_digit c = (48 \<le> (of_char c :: nat) \<and> (of_char c :: nat) \<le> 57)"

definition int_of_digits :: "string \<Rightarrow> int" where
  "int_of_digits s = foldl (\<lambda>n c. 10 * n + (of_char c - 48)) 0 s"

definition is_array_index :: "string \<Rightarrow> bool" where
  "is_array_index s =
     (case s of
        [] \<Rightarrow> False
      | c # cs \<Rightarrow> list_all is_digit s \<and> (cs = [] \<or> c \<noteq> CHR ''0'') \<and> int_of_digits s < 4294967295)"

definition Object_entries :: "'v obj \<Rightarrow> (string \<times> 'v) list" where
  "Object_entries obj =
     sort_key (\<lambda>e. int_of_digits (fst e)) (filter (\<lambda>e. is_array_index (fst e)) obj)
     @ filter (\<lambda>e. \<not> is_array_index (fst e)) obj"


definition Object_values :: "'v obj \<Rightarrow> 'v list" where
  "Object_values obj = map snd (Object_entries obj)"




text \<open>The distinct elements of a list, in order of first occurrence.\<close>

definition firstOccurrences :: "'a list \<Rightarrow> 'a list" where
  "firstOccurrences xs = rev (remdups (rev xs))"

section \<open>Dashboard charts\<close>

text \<open>
  One step of the five grouping loops of /api/dashboard-data, for the key \<open>key\<close>:
  \<open>if (!obj[k]) obj[k] = 0; obj[k] += item.Sales\<close>. The guard also fires when the sum
  so far is \<open>0\<close>, which sets it to \<open>0\<close> again. The two statements together are one
  update of the property \<open>k\<close>: a new property is created behind the existing ones, an
  existing one is overwritten where it stands.
\<close>

definition addSales :: "(SalesRecord \<Rightarrow> string) \<Rightarrow> rat obj \<Rightarrow> SalesRecord \<Rightarrow> rat obj" where
  "addSales key obj item =
     (let k = key item;
          cur = (case map_of obj k of None \<Rightarrow> 0 | Some v \<Rightarrow> if v = 0 then 0 else v)
      in AList.update k (cur + Sales item) obj)"

definition groupSales :: "(SalesRecord \<Rightarrow> string) \<Rightarrow> SalesRecord list \<Rightarrow> rat obj" where
  "groupSales key filteredData = foldl (addSales key) [] filteredData"

text \<open>A chart entry \<open>{city, sales}\<close> (or \<open>{productName, sales}\<close>, ...) is the pair of its two fields.\<close>

type_synonym chartEntry = "string \<times> int"

definition roundEntries :: "rat obj \<Rightarrow> chartEntry list" where
  "roundEntries obj = map (\<lambda>(k, sales). (k, Math_round sales)) (Object_entries obj)"

text \<open>\<open>(a, b) => b.sales - a.sales\<close>\<close>

definition bySalesDesc :: "chartEntry \<Rightarrow> chartEntry \<Rightarrow> int" where
  "bySalesDesc a b = snd b - snd a"

definition salesByCityArray :: "SalesRecord list \<Rightarrow> chartEntry list" where
  "salesByCityArray filteredData =
     slice0 10 (Array_sort bySalesDesc (roundEntries (groupSales City filteredData)))"

definition salesByProductArray :: "SalesRecord list \<Rightarrow> chartEntry list" where
  "salesByProductArray filteredData =
     slice0 10 (Array_sort bySalesDesc (roundEntries (groupSales ProductName filteredData)))"

definition salesByCategoryArray :: "SalesRecord list \<Rightarrow> chartEntry list" where
  "salesByCategoryArray filteredData = roundEntries (groupSales Category filteredData)"

definition salesBySubCategoryArray :: "SalesRecord list \<Rightarrow> chartEntry list" where
  "salesBySubCategoryArray filteredData =
     slice0 10 (Array_sort bySalesDesc (roundEntries (groupSales SubCategory filteredData)))"

definition salesBySegmentArray :: "SalesRecord list \<Rightarrow> chartEntry list" where
  "salesBySegmentArray filteredData = roundEntries (groupSales Segment filteredData)"

record charts =
  salesByCity :: "chartEntry list"
  salesByProducts :: "chartEntry list"
  salesByCategory :: "chartEntry list"
  salesBySubCategory :: "chartEntry list"
  salesBySegment :: "chartEntry list"

record dashboard =
  dashCards :: cards
  dashCharts :: charts

definition dashboard_data ::
  "date_parser \<Rightarrow> SalesRecord list \<Rightarrow> param \<Rightarrow> param \<Rightarrow> param \<Rightarrow> param \<Rightarrow> dashboard" where
  "dashboard_data P salesData state fromDate toDate customerId =
     (let filteredData = applyFilters P salesData state fromDate toDate customerId
      in \<lparr> dashCards = dashboard_cards filteredData,
           dashCharts =
             \<lparr> salesByCity = salesByCityArray filteredData,
               salesByProducts = salesByProductArray filteredData,
               salesByCategory = salesByCategoryArray filteredData,
               salesBySubCategory = salesBySubCategoryArray filteredData,
               salesBySegment = salesBySegmentArray filteredData \<rparr> \<rparr>)"

section \<open>/api/states and /api/customers\<close>

text \<open>
  The default \<open>sort()\<close> compares strings by their code units; \<open>localeCompare\<close> is the
  collation of the host's locale and is a parameter \<open>lc\<close>.
\<close>

definition compareStrings :: "string \<Rightarrow> string \<Rightarrow> int" where
  "compareStrings a b = (if a < b then - 1 else if b < a then 1 else 0)"

definition states :: "SalesRecord list \<Rightarrow> string list" where
  "states salesData = Array_sort compareStrings (new_Set (=) (map State salesData))"

record customer =
  customer_id :: string
  customer_name :: string

definition customers :: "(string \<Rightarrow> string \<Rightarrow> int) \<Rightarrow> SalesRecord list \<Rightarrow> customer list" where
  "customers lc salesData =
     map snd
       (Array_sort (\<lambda>a b. lc (customer_name (snd a)) (customer_name (snd b)))
          (new_Set same_object
             (map_new (\<lambda>item. \<lparr> customer_id = CustomerID item, customer_name = CustomerName item \<rparr>)
                salesData)))"

section \<open>Dates\<close>

text \<open>
  The calendar functions of the language definition (Day Number and Time within Day,
  Year Number, Month Number, Date Number). \<open>YearFromTime t\<close> is specified there as the
  largest \<open>y\<close> with \<open>TimeFromYear y \<le> t\<close>; here it is computed from an estimate that is
  off by at most one year, and \<open>YearFromTime_bounds\<close> below shows that the result is
  that year.
\<close>

definition msPerDay :: int where
  "msPerDay = 86400000"

definition Day :: "int \<Rightarrow> int" where
  "Day t = t div msPerDay"

definition DaysInYear :: "int \<Rightarrow> int" where
  "DaysInYear y =
     (if y mod 4 \<noteq> 0 then 365
      else if y mod 100 \<noteq> 0 then 366
      else if y mod 400 \<noteq> 0 then 365
      else 366)"

definition DayFromYear :: "int \<Rightarrow> int" where
  "DayFromYear y =
     365 * (y - 1970) + (y - 1969) div 4 - (y - 1901) div 100 + (y - 1601) div 400"

definition TimeFromYear :: "int \<Rightarrow> int" where
  "TimeFromYear y = msPerDay * DayFromYear y"

definition YearFromTime :: "int \<Rightarrow> int" where
  "YearFromTime t =
     (let d = Day t; y = 1970 + (400 * d) div 146097
      in if DayFromYear (y + 1) \<le> d then y + 1
         else if DayFromYear y \<le> d then y
         else y - 1)"

definition InLeapYear :: "int \<Rightarrow> int" where
  "InLeapYear t = (if DaysInYear (YearFromTime t) = 366 then 1 else 0)"

definition DayWithinYear :: "int \<Rightarrow> int" where
  "DayWithinYear t = Day t - DayFromYear (YearFromTime t)"

text \<open>The month of day \<open>d\<close> of a year, \<open>l\<close> being 1 in a leap year and 0 otherwise.\<close>

definition monthOfDay :: "int \<Rightarrow> int \<Rightarrow> int" where
  "monthOfDay l d =
     (if d < 31 then 0
      else if d < 59 + l then 1
      else if d < 90 + l then 2
      else if d < 120 + l then 3
      else if d < 151 + l then 4
      else if d < 181 + l then 5
      else if d < 212 + l then 6
      else if d < 243 + l then 7
      else if d < 273 + l then 8
      else if d < 304 + l then 9
      else if d < 334 + l then 10
      else 11)"

definition MonthFromTime :: "int \<Rightarrow> int" where
  "MonthFromTime t = monthOfDay (InLeapYear t) (DayWithinYear t)"

text \<open>The number of days of the year before month \<open>m\<close>.\<close>

definition monthStart :: "int \<Rightarrow> int \<Rightarrow> int" where
  "monthStart l m =
     (if m = 0 then 0
      else if m = 1 then 31
      else if m = 2 then 59 + l
      else if m = 3 then 90 + l
      else if m = 4 then 120 + l
      else if m = 5 then 151 + l
      else if m = 6 then 181 + l
      else if m = 7 then 212 + l
      else if m = 8 then 243 + l
      else if m = 9 then 273 + l
      else if m = 10 then 304 + l
      else 334 + l)"

definition DateFromTime :: "int \<Rightarrow> int" where
  "DateFromTime t = DayWithinYear t - monthStart (InLeapYear t) (MonthFromTime t) + 1"

definition HourFromTime :: "int \<Rightarrow> int" where
  "HourFromTime t = (t div 3600000) mod 24"

definition MinFromTime :: "int \<Rightarrow> int" where
  "MinFromTime t = (t div 60000) mod 60"

definition SecFromTime :: "int \<Rightarrow> int" where
  "SecFromTime t = (t div 1000) mod 60"

definition msFromTime :: "int \<Rightarrow> int" where
  "msFromTime t = t mod 1000"

text \<open>
  Local time is \<open>t + LocalTZA(t)\<close>; the offset of the server's time zone at each instant
  is the parameter \<open>tza\<close>. \<open>getFullYear\<close> and \<open>getMonth\<close> read local time and are NaN
  (\<open>None\<close>) on an Invalid Date.
\<close>

type_synonym timezone = "int \<Rightarrow> int"

definition LocalTime :: "timezone \<Rightarrow> int \<Rightarrow> int" where
  "LocalTime tza t = t + tza t"

definition getFullYear :: "timezone \<Rightarrow> jsdate \<Rightarrow> int option" where
  "getFullYear tza date = map_option (\<lambda>t. YearFromTime (LocalTime tza t)) date"

definition getMonth :: "timezone \<Rightarrow> jsdate \<Rightarrow> int option" where
  "getMonth tza date = map_option (\<lambda>t. MonthFromTime (LocalTime tza t)) date"

text \<open>Decimal notation of integers, \<open>String(n)\<close> for an integer or NaN, and \<open>padStart\<close>.\<close>

definition digit_char :: "nat \<Rightarrow> char" where
  "digit_char n = char_of (48 + n)"

fun nat_toString :: "nat \<Rightarrow> string" where
  "nat_toString n =
     (if n < 10 then [digit_char n] else nat_toString (n div 10) @ [digit_char (n mod 10)])"

declare nat_toString.simps [simp del]

definition int_toString :: "int \<Rightarrow> string" where
  "int_toString i = (if i < 0 then CHR ''-'' # nat_toString (nat (- i)) else nat_toString (nat i))"

definition Number_toString :: "int option \<Rightarrow> string" where
  "Number_toString n = (case n of None \<Rightarrow> ''NaN'' | Some i \<Rightarrow> int_toString i)"

definition padStart :: "nat \<Rightarrow> char \<Rightarrow> string \<Rightarrow> string" where
  "padStart n c s = replicate (n - length s) c @ s"

text \<open>
  \<open>toISOString\<close> reads UTC and throws a RangeError on an Invalid Date. Years 0 to 9999
  are written with four digits, the others with a sign and six digits.
\<close>

datatype error = RangeError

definition isoYear :: "int \<Rightarrow> string" where
  "isoYear y =
     (if 0 \<le> y \<and> y \<le> 9999 then padStart 4 (CHR ''0'') (nat_toString (nat y))
      else (if y < 0 then CHR ''-'' else CHR ''+'') # padStart 6 (CHR ''0'') (nat_toString (nat \<bar>y\<bar>)))"

definition pad2 :: "int \<Rightarrow> string" where
  "pad2 n = padStart 2 (CHR ''0'') (nat_toString (nat n))"

definition toISOString :: "jsdate \<Rightarrow> error + string" where
  "toISOString date =
     (case date of
        None \<Rightarrow> Inl RangeError
      | Some t \<Rightarrow>
          Inr (isoYear (YearFromTime t) @ ''-'' @ pad2 (MonthFromTime t + 1) @ ''-''
               @ pad2 (DateFromTime t) @ ''T'' @ pad2 (HourFromTime t) @ '':''
               @ pad2 (MinFromTime t) @ '':'' @ pad2 (SecFromTime t) @ ''.''
               @ padStart 3 (CHR ''0'') (nat_toString (nat (msFromTime t))) @ ''Z''))"

text \<open>\<open>s.split(c)[0]\<close>: the part of \<open>s\<close> before the first \<open>c\<close>.\<close>

definition split_first :: "char \<Rightarrow> string \<Rightarrow> string" where
  "split_first c s = takeWhile (\<lambda>x. x \<noteq> c) s"

section \<open>Sales trend\<close>

definition periodKey :: "timezone \<Rightarrow> string \<Rightarrow> jsdate \<Rightarrow> error + string" where
  "periodKey tza period date =
     (if period = ''monthly'' then
        Inr (Number_toString (getFullYear tza date) @ ''-''
             @ padStart 2 (CHR ''0'')
                 (Number_toString (map_option (\<lambda>m. m + 1) (getMonth tza date))))
      else if period = ''yearly'' then
        Inr (Number_toString (getFullYear tza date))
      else
        (case toISOString date of
           Inl e \<Rightarrow> Inl e
         | Inr s \<Rightarrow> Inr (split_first (CHR ''T'') s)))"

text \<open>
  An entry of \<open>trendData\<close> carries sums of type \<open>rat\<close>; an entry of the response carries
  the rounded sums.
\<close>

record 'n trendEntry =
  t_period :: string
  t_sales :: 'n
  t_profit :: 'n
  t_quantity :: int

text \<open>
  The body of the \<open>forEach\<close> of /api/sales-trend. An exception leaves the loop and the
  handler's \<open>try\<close> block.
\<close>

definition addTrend ::
  "date_parser \<Rightarrow> timezone \<Rightarrow> string \<Rightarrow> rat trendEntry obj \<Rightarrow> SalesRecord
     \<Rightarrow> error + rat trendEntry obj" where
  "addTrend P tza period trendData item =
     (let date = parseDate P (Some (OrderDate item))
      in case periodKey tza period date of
           Inl e \<Rightarrow> Inl e
         | Inr k \<Rightarrow>
             (let cur = (case map_of trendData k of
                           None \<Rightarrow> \<lparr> t_period = k, t_sales = 0, t_profit = 0, t_quantity = 0 \<rparr>
                         | Some e \<Rightarrow> e)
              in Inr (AList.update k
                        (cur \<lparr> t_sales := t_sales cur + Sales item,
                              t_profit := t_profit cur + Profit item,
                              t_quantity := t_quantity cur + Quantity item \<rparr>)
                        trendData)))"

fun forEach :: "('s \<Rightarrow> 'a \<Rightarrow> error + 's) \<Rightarrow> 'a list \<Rightarrow> 's \<Rightarrow> error + 's" where
  "forEach f [] s = Inr s"
| "forEach f (x # xs) s = (case f s x of Inl e \<Rightarrow> Inl e | Inr s' \<Rightarrow> forEach f xs s')"

definition trendArray ::
  "(string \<Rightarrow> string \<Rightarrow> int) \<Rightarrow> date_parser \<Rightarrow> timezone \<Rightarrow> string \<Rightarrow> SalesRecord list
     \<Rightarrow> error + int trendEntry list" where
  "trendArray lc P tza period filteredData =
     (case forEach (addTrend P tza period) filteredData [] of
        Inl e \<Rightarrow> Inl e
      | Inr trendData \<Rightarrow>
          Inr (Array_sort (\<lambda>a b. lc (t_period a) (t_period b))
                 (map (\<lambda>item. \<lparr> t_period = t_period item,
                                t_sales = Math_round (t_sales item),
                                t_profit = Math_round (t_profit item),
                                t_quantity = t_quantity item \<rparr>)
                    (Object_values trendData))))"

text \<open>
  The handler: \<open>period\<close> defaults to \<open>"monthly"\<close> when the query has none. \<open>Inl\<close> is the
  path through \<open>catch\<close> (status 500).
\<close>

definition sales_trend ::
  "(string \<Rightarrow> string \<Rightarrow> int) \<Rightarrow> date_parser \<Rightarrow> timezone \<Rightarrow> SalesRecord list
     \<Rightarrow> param \<Rightarrow> param \<Rightarrow> param \<Rightarrow> param \<Rightarrow> param \<Rightarrow> error + int trendEntry list" where
  "sales_trend lc P tza salesData state fromDate toDate customerId periodParam =
     (let period = (case periodParam of None \<Rightarrow> ''monthly'' | Some p \<Rightarrow> p);
          filteredData = applyFilters P salesData state fromDate toDate customerId
      in trendArray lc P tza period filteredData)"

section \<open>Analytics\<close>

record 'n productEntry =
  p_productName :: string
  p_category :: string
  p_totalSales :: 'n
  p_totalProfit :: 'n
  p_totalQuantity :: int
  p_orderCount :: nat

record topProduct =
  tp_productName :: string
  tp_category :: string
  tp_totalSales :: int
  tp_totalProfit :: int
  tp_totalQuantity :: int
  tp_orderCount :: nat
  tp_avgOrderValue :: jsnum

text \<open>
  The body of the first \<open>forEach\<close> of /api/analytics:
  \<open>if (!productPerformance[key]) productPerformance[key] = {...}\<close> followed by the four
  updates of the entry, as one update of the property \<open>key\<close>.
\<close>

definition addProduct :: "rat productEntry obj \<Rightarrow> SalesRecord \<Rightarrow> rat productEntry obj" where
  "addProduct productPerformance item =
     (let key = ProductName item;
          cur = (case map_of productPerformance key of
                   None \<Rightarrow> \<lparr> p_productName = key, p_category = Category item, p_totalSales = 0,
                             p_totalProfit = 0, p_totalQuantity = 0, p_orderCount = 0 \<rparr>
                 | Some e \<Rightarrow> e)
      in AList.update key
           (cur \<lparr> p_totalSales := p_totalSales cur + Sales item,
                 p_totalProfit := p_totalProfit cur + Profit item,
                 p_totalQuantity := p_totalQuantity cur + Quantity item,
                 p_orderCount := p_orderCount cur + 1 \<rparr>)
           productPerformance)"

definition productPerformance :: "SalesRecord list \<Rightarrow> rat productEntry obj" where
  "productPerformance filteredData = foldl addProduct [] filteredData"

definition roundProduct :: "rat productEntry \<Rightarrow> topProduct" where
  "roundProduct item =
     \<lparr> tp_productName = p_productName item,
       tp_category = p_category item,
       tp_totalSales = Math_round (p_totalSales item),
       tp_totalProfit = Math_round (p_totalProfit item),
       tp_totalQuantity = p_totalQuantity item,
       tp_orderCount = p_orderCount item,
       tp_avgOrderValue =
         js_round (js_div (Num (p_totalSales item)) (Num (of_nat (p_orderCount item)))) \<rparr>"

definition topProducts :: "SalesRecord list \<Rightarrow> topProduct list" where
  "topProducts filteredData =
     slice0 10
       (Array_sort (\<lambda>a b. tp_totalSales b - tp_totalSales a)
          (map roundProduct (Object_values (productPerformance filteredData))))"


record 'n regionEntry =
  r_region :: string
  r_sales :: 'n
  r_profit :: 'n
  r_orders :: nat

record regionOut =
  ro_region :: string
  ro_sales :: int
  ro_profit :: int
  ro_orders :: nat
  ro_avgOrderValue :: jsnum

definition addRegion :: "rat regionEntry obj \<Rightarrow> SalesRecord \<Rightarrow> rat regionEntry obj" where
  "addRegion regionalPerformance item =
     (let key = Region item;
          cur = (case map_of regionalPerformance key of
                   None \<Rightarrow> \<lparr> r_region = key, r_sales = 0, r_profit = 0, r_orders = 0 \<rparr>
                 | Some e \<Rightarrow> e)
      in AList.update key
           (cur \<lparr> r_sales := r_sales cur + Sales item,
                 r_profit := r_profit cur + Profit item,
                 r_orders := r_orders cur + 1 \<rparr>)
           regionalPerformance)"

definition regionalPerformance :: "SalesRecord list \<Rightarrow> rat regionEntry obj" where
  "regionalPerformance filteredData = foldl addRegion [] filteredData"

definition roundRegion :: "rat regionEntry \<Rightarrow> regionOut" where
  "roundRegion item =
     \<lparr> ro_region = r_region item,
       ro_sales = Math_round (r_sales item),
       ro_profit = Math_round (r_profit item),
       ro_orders = r_orders item,
       ro_avgOrderValue = js_round (js_div (Num (r_sales item)) (Num (of_nat (r_orders item)))) \<rparr>"

definition regionArray :: "SalesRecord list \<Rightarrow> regionOut list" where
  "regionArray filteredData = map roundRegion (Object_values (regionalPerformance filteredData))"

record summary =
  totalOrders :: nat
  uniqueCustomers :: nat
  avgOrderValue :: jsnum
  totalCategories :: nat

definition analytics_summary :: "SalesRecord list \<Rightarrow> summary" where
  "analytics_summary filteredData =
     \<lparr> totalOrders = length filteredData,
       uniqueCustomers = length (new_Set (=) (map CustomerID filteredData)),
       avgOrderValue =
         js_round (js_div (Num (foldl (\<lambda>sum item. sum + Sales item) 0 filteredData))
                          (Num (of_nat (length filteredData)))),
       totalCategories = length (new_Set (=) (map Category filteredData)) \<rparr>"

record analyticsData =
  an_topProducts :: "topProduct list"
  an_regionalPerformance :: "regionOut list"
  an_summary :: summary

definition analytics ::
  "date_parser \<Rightarrow> SalesRecord list \<Rightarrow> param \<Rightarrow> param \<Rightarrow> param \<Rightarrow> analyticsData" where
  "analytics P salesData state fromDate toDate =
     (let filteredData = filterData P salesData state fromDate toDate
      in \<lparr> an_topProducts = topProducts filteredData,
           an_regionalPerformance = regionArray filteredData,
           an_summary = analytics_summary filteredData \<rparr>)"

section \<open>An instance of the date parser, and sample records\<close>

text \<open>
  The date-only form \<open>YYYY-MM-DD\<close> of the Date Time String Format denotes midnight UTC
  of that day. \<open>isoDate\<close> parses this form when the day exists in the month and treats
  every other string as invalid; it stands for \<open>new Date(s)\<close> in the examples.
\<close>

definition DaysInMonth :: "int \<Rightarrow> int \<Rightarrow> int" where
  "DaysInMonth y m =
     (if m = 2 then (if DaysInYear y = 366 then 29 else 28)
      else if m = 4 \<or> m = 6 \<or> m = 9 \<or> m = 11 then 30
      else 31)"

definition MakeDay :: "int \<Rightarrow> int \<Rightarrow> int \<Rightarrow> int" where
  "MakeDay y m d =
     DayFromYear y + monthStart (if DaysInYear y = 366 then 1 else 0) (m - 1) + d - 1"

definition isoDate :: date_parser where
  "isoDate s =
     (if length s = 10 \<and> s ! 4 = CHR ''-'' \<and> s ! 7 = CHR ''-''
         \<and> list_all is_digit (take 4 s) \<and> list_all is_digit (take 2 (drop 5 s))
         \<and> list_all is_digit (drop 8 s)
      then
        (let y = int_of_digits (take 4 s);
             m = int_of_digits (take 2 (drop 5 s));
             d = int_of_digits (drop 8 s)
         in if 1 \<le> m \<and> m \<le> 12 \<and> 1 \<le> d \<and> d \<le> DaysInMonth y m
            then Some (msPerDay * MakeDay y m d)
            else None)
      else None)"

definition UTC :: timezone where
  "UTC t = 0"

text \<open>A record with the given date, customer, place, product and amounts.\<close>

definition order ::
  "string \<Rightarrow> string \<Rightarrow> string \<Rightarrow> string \<Rightarrow> string \<Rightarrow> rat \<Rightarrow> int \<Rightarrow> rat \<Rightarrow> rat \<Rightarrow> SalesRecord" where
  "order date customer state category product sales quantity discount prof =
     \<lparr> OrderDate = date, CustomerID = customer, CustomerName = customer, Segment = ''Consumer'',
       City = ''Henderson'', State = state, Region = ''South'', Category = category,
       SubCategory = ''Bookcases'', ProductName = product, Sales = sales, Quantity = quantity,
       Discount = discount, Profit = prof \<rparr>"





section \<open>Auxiliary facts\<close>



lemma filterCustomer_subseq: "subseq (filterCustomer xs c) xs"
  by (simp add: filterCustomer_def)

lemma filterData_subseq: "subseq (filterData P data st f t) data"
  by (simp add: filterData_def)

lemma isoDate_samples:
  "isoDate ''2016-01-05'' = Some 1451952000000"
  "isoDate ''2016-01-20'' = Some 1453248000000"
  "isoDate ''2016-06-15'' = Some 1465948800000"
  by (simp_all add: isoDate_def is_digit_def int_of_digits_def DaysInMonth_def MakeDay_def
      DayFromYear_def DaysInYear_def monthStart_def msPerDay_def Let_def)

section \<open>The filter\<close>

text \<open>
  Claim C1. For every record sequence and all criteria, the filter (state and date range,
  then the customer pass) returns a subsequence of its input, in the input's order. When
  state, fromDate, toDate and customerId are all absent or empty, the output is the input.
  A record passes \<open>filterData\<close> exactly when the state criterion is absent or equal to the
  record's state as a string, and each date bound is absent or is a valid date that the
  record's valid date does not fall before (fromDate) or after (toDate); a date equal to a
  bound passes.
\<close>

theorem filter_is_ordered_subsequence:
  "subseq (applyFilters P data state fromDate toDate customerId) data
   \<and> (js_not state \<and> js_not fromDate \<and> js_not toDate \<and> js_not customerId
        \<longrightarrow> applyFilters P data state fromDate toDate customerId = data)
   \<and> filterData P data state fromDate toDate =
       filter (\<lambda>item.
          (js_not state \<or> Some (State item) = state)
          \<and> (js_not fromDate \<or>
               (\<exists>d lo. P (OrderDate item) = Some d \<and> parseDate P fromDate = Some lo \<and> lo \<le> d))
          \<and> (js_not toDate \<or>
               (\<exists>d hi. P (OrderDate item) = Some d \<and> parseDate P toDate = Some hi \<and> d \<le> hi)))
        data"
proof (intro conjI impI)
  show "subseq (applyFilters P data state fromDate toDate customerId) data"
    unfolding applyFilters_def
    by (rule subseq_order.trans [OF filterCustomer_subseq filterData_subseq])
next
  assume "js_not state \<and> js_not fromDate \<and> js_not toDate \<and> js_not customerId"
  then show "applyFilters P data state fromDate toDate customerId = data"
    by (simp add: applyFilters_def filterCustomer_def filterData_def)
next
  have ge: "date_ge a b \<longleftrightarrow> (\<exists>d lo. a = Some d \<and> b = Some lo \<and> lo \<le> d)" for a b
    by (auto simp: date_ge_def split: option.splits)
  have le: "date_le a b \<longleftrightarrow> (\<exists>d hi. a = Some d \<and> b = Some hi \<and> d \<le> hi)" for a b
    by (auto simp: date_le_def split: option.splits)
  show "filterData P data state fromDate toDate =
       filter (\<lambda>item.
          (js_not state \<or> Some (State item) = state)
          \<and> (js_not fromDate \<or>
               (\<exists>d lo. P (OrderDate item) = Some d \<and> parseDate P fromDate = Some lo \<and> lo \<le> d))
          \<and> (js_not toDate \<or>
               (\<exists>d hi. P (OrderDate item) = Some d \<and> parseDate P toDate = Some hi \<and> d \<le> hi)))
        data"
    unfolding filterData_def Let_def ge le by (simp add: parseDate_def)
qed

text \<open>
  Four orders: two in Texas on the first and the last day of the range, one in Texas
  after the range, one on a day of the range in a state spelled \<open>texas\<close>. Without
  criteria all four come back; with state Texas and the range 2016-01-05 to 2016-01-20
  the first two do.
\<close>

theorem filter_is_ordered_subsequence_witness:
  "js_not None \<and> js_not (Some [])
   \<and> applyFilters isoDate
        [order ''2016-01-05'' ''CG-12520'' ''Texas'' ''Furniture'' ''Chair'' 100 1 0 10,
         order ''2016-01-20'' ''DV-13045'' ''Texas'' ''Furniture'' ''Table'' 200 2 (1 / 5) 20,
         order ''2016-06-15'' ''CG-12520'' ''Texas'' ''Furniture'' ''Chair'' 50 1 0 5,
         order ''2016-01-10'' ''CG-12520'' ''texas'' ''Furniture'' ''Chair'' 70 1 0 7]
        None (Some []) None None
      = [order ''2016-01-05'' ''CG-12520'' ''Texas'' ''Furniture'' ''Chair'' 100 1 0 10,
         order ''2016-01-20'' ''DV-13045'' ''Texas'' ''Furniture'' ''Table'' 200 2 (1 / 5) 20,
         order ''2016-06-15'' ''CG-12520'' ''Texas'' ''Furniture'' ''Chair'' 50 1 0 5,
         order ''2016-01-10'' ''CG-12520'' ''texas'' ''Furniture'' ''Chair'' 70 1 0 7]
   \<and> filterData isoDate
        [order ''2016-01-05'' ''CG-12520'' ''Texas'' ''Furniture'' ''Chair'' 100 1 0 10,
         order ''2016-01-20'' ''DV-13045'' ''Texas'' ''Furniture'' ''Table'' 200 2 (1 / 5) 20,
         order ''2016-06-15'' ''CG-12520'' ''Texas'' ''Furniture'' ''Chair'' 50 1 0 5,
         order ''2016-01-10'' ''CG-12520'' ''texas'' ''Furniture'' ''Chair'' 70 1 0 7]
        (Some ''Texas'') (Some ''2016-01-05'') (Some ''2016-01-20'')
      = [order ''2016-01-05'' ''CG-12520'' ''Texas'' ''Furniture'' ''Chair'' 100 1 0 10,
         order ''2016-01-20'' ''DV-13045'' ''Texas'' ''Furniture'' ''Table'' 200 2 (1 / 5) 20]"
proof -
  let ?data =
    "[order ''2016-01-05'' ''CG-12520'' ''Texas'' ''Furniture'' ''Chair'' 100 1 0 10,
      order ''2016-01-20'' ''DV-13045'' ''Texas'' ''Furniture'' ''Table'' 200 2 (1 / 5) 20,
      order ''2016-06-15'' ''CG-12520'' ''Texas'' ''Furniture'' ''Chair'' 50 1 0 5,
      order ''2016-01-10'' ''CG-12520'' ''texas'' ''Furniture'' ''Chair'' 70 1 0 7]"
  have absent: "js_not None \<and> js_not (Some [])"
    by (simp add: js_not_def)
  have all: "applyFilters isoDate ?data None (Some []) None None = ?data"
    using filter_is_ordered_subsequence [of isoDate ?data None "Some []" None None] absent
    by blast
  have some: "filterData isoDate ?data (Some ''Texas'') (Some ''2016-01-05'') (Some ''2016-01-20'')
      = [order ''2016-01-05'' ''CG-12520'' ''Texas'' ''Furniture'' ''Chair'' 100 1 0 10,
         order ''2016-01-20'' ''DV-13045'' ''Texas'' ''Furniture'' ''Table'' 200 2 (1 / 5) 20]"
    using filter_is_ordered_subsequence
      [of isoDate ?data "Some ''Texas''" "Some ''2016-01-05''" "Some ''2016-01-20''" None]
    by (simp add: js_not_def parseDate_def order_def isoDate_samples
        isoDate_def [of "''2016-01-10''"] is_digit_def int_of_digits_def DaysInMonth_def
        MakeDay_def DayFromYear_def DaysInYear_def monthStart_def msPerDay_def)
  from absent all some show ?thesis by blast
qed

section \<open>Dashboard cards\<close>

text \<open>The cards of the handler are the cards of the records that pass both filters.\<close>

lemma dashboard_data_cards:
  "dashCards (dashboard_data P salesData state fromDate toDate customerId)
     = dashboard_cards (applyFilters P salesData state fromDate toDate customerId)"
  by (simp add: dashboard_data_def Let_def)



text \<open>
  Claim C4, as amended. When no filtered record has a positive discount, the guard
  \<open>discountData.length > 0\<close> selects the default: \<open>discountPercentage\<close> is 0, not NaN.
\<close>

theorem discountPercentage_zero_without_discounts:
  assumes "\<forall>item \<in> set fd. \<not> 0 < Discount item"
  shows "discountPercentage (dashboard_cards fd) = Num 0"
proof -
  from assms have "filter (\<lambda>item. 0 < Discount item) fd = []"
    by (simp add: filter_empty_conv)
  then show ?thesis
    by (simp add: dashboard_cards_def avgDiscount_def Math_round_def floor_eq_iff)
qed

theorem discountPercentage_zero_without_discounts_witness:
  "\<not> 0 < Discount (order ''2016-11-08'' ''CG-12520'' ''Kentucky'' ''Furniture'' ''Bookcase'' 100 1 0 10)
   \<and> discountPercentage
        (dashboard_cards [order ''2016-11-08'' ''CG-12520'' ''Kentucky'' ''Furniture'' ''Bookcase'' 100 1 0 10])
      = Num 0"
  using discountPercentage_zero_without_discounts
    [of "[order ''2016-11-08'' ''CG-12520'' ''Kentucky'' ''Furniture'' ''Bookcase'' 100 1 0 10]"]
  by (simp add: order_def)

text \<open>
  The claim as stated (NaN whenever no record has a positive discount) fails on a single
  order without discount.
\<close>

theorem discountPercentage_NaN_counterexample:
  "\<not> 0 < Discount (order ''2016-11-08'' ''CG-12520'' ''Kentucky'' ''Furniture'' ''Bookcase'' 100 1 0 10)
   \<and> discountPercentage
        (dashboard_cards [order ''2016-11-08'' ''CG-12520'' ''Kentucky'' ''Furniture'' ''Bookcase'' 100 1 0 10])
      \<noteq> NaN"
  by (simp add: order_def dashboard_cards_def avgDiscount_def Math_round_def floor_eq_iff)

section \<open>Sorting and sets\<close>

lemma length_insert_by: "length (insert_by cmp x ys) = Suc (length ys)"
  by (induction ys) simp_all

lemma length_Array_sort: "length (Array_sort cmp xs) = length xs"
  by (induction xs) (simp_all add: Array_sort_def length_insert_by)

lemma set_insert_by: "set (insert_by cmp x ys) = insert x (set ys)"
  by (induction ys) auto

lemma set_Array_sort: "set (Array_sort cmp xs) = set xs"
  by (induction xs) (simp_all add: Array_sort_def set_insert_by)

lemma distinct_insert_by: "distinct (insert_by cmp x ys) \<longleftrightarrow> x \<notin> set ys \<and> distinct ys"
  by (induction ys) (auto simp: set_insert_by)

lemma distinct_Array_sort: "distinct (Array_sort cmp xs) \<longleftrightarrow> distinct xs"
  by (induction xs) (simp_all add: Array_sort_def distinct_insert_by set_Array_sort [unfolded Array_sort_def])

lemma foldl_Set_add_objects:
  "distinct (map fst (acc @ ys)) \<Longrightarrow> foldl (Set_add same_object) acc ys = acc @ ys"
proof (induction ys arbitrary: acc)
  case Nil
  then show ?case by simp
next
  case (Cons y ys)
  have "\<not> list_ex (same_object y) acc"
    using Cons.prems by (auto simp: list_ex_iff same_object_def)
  then have "Set_add same_object acc y = acc @ [y]"
    by (simp add: Set_add_def)
  with Cons.IH [of "acc @ [y]"] Cons.prems show ?case by simp
qed

lemma new_Set_map_new: "new_Set same_object (map_new f xs) = map_new f xs"
  unfolding new_Set_def
  using foldl_Set_add_objects [of "[]" "map_new f xs"] by (simp add: map_new_def)

lemma foldl_Set_add_eq:
  "distinct acc \<Longrightarrow> distinct (foldl (Set_add (=)) acc ys)
     \<and> set (foldl (Set_add (=)) acc ys) = set acc \<union> set ys"
proof (induction ys arbitrary: acc)
  case Nil
  then show ?case by simp
next
  case (Cons y ys)
  have "distinct (Set_add (=) acc y)" "set (Set_add (=) acc y) = insert y (set acc)"
    using Cons.prems by (auto simp: Set_add_def list_ex_iff)
  with Cons.IH [of "Set_add (=) acc y"] show ?case by auto
qed

lemma states_distinct: "distinct (states salesData) \<and> set (states salesData) = State ` set salesData"
  using foldl_Set_add_eq [of "[]" "map State salesData"]
  by (simp add: states_def distinct_Array_sort set_Array_sort new_Set_def)



section \<open>The customer directory\<close>

text \<open>
  Claim C2 (the code departs from it). The set built by /api/customers holds object
  literals, and two object literals are never the same value, so nothing is ever
  dropped: the directory is the sorted list of one \<open>{id, name}\<close> object per record of
  the dataset, as long as the dataset. Two records of customer CG-12520 produce two equal
  entries, where the claim promises one. (\<open>states_distinct\<close> above: the same
  construction on strings, in /api/states, does remove duplicates.)
\<close>

theorem customers_one_entry_per_record:
  "customers lc salesData
     = map snd (Array_sort (\<lambda>a b. lc (customer_name (snd a)) (customer_name (snd b)))
         (map_new (\<lambda>item. \<lparr> customer_id = CustomerID item, customer_name = CustomerName item \<rparr>) salesData))
   \<and> length (customers lc salesData) = length salesData
   \<and> customers lc
        [order ''2016-11-08'' ''CG-12520'' ''Kentucky'' ''Furniture'' ''Bookcase'' 100 1 0 10,
         order ''2016-11-09'' ''CG-12520'' ''Kentucky'' ''Furniture'' ''Chair'' 50 1 0 5]
      = [\<lparr> customer_id = ''CG-12520'', customer_name = ''CG-12520'' \<rparr>,
         \<lparr> customer_id = ''CG-12520'', customer_name = ''CG-12520'' \<rparr>]"
proof (intro conjI)
  show "customers lc salesData
     = map snd (Array_sort (\<lambda>a b. lc (customer_name (snd a)) (customer_name (snd b)))
         (map_new (\<lambda>item. \<lparr> customer_id = CustomerID item, customer_name = CustomerName item \<rparr>) salesData))"
    by (simp add: customers_def new_Set_map_new)
  show "length (customers lc salesData) = length salesData"
    by (simp add: customers_def new_Set_map_new length_Array_sort) (simp add: map_new_def)
  show "customers lc
        [order ''2016-11-08'' ''CG-12520'' ''Kentucky'' ''Furniture'' ''Bookcase'' 100 1 0 10,
         order ''2016-11-09'' ''CG-12520'' ''Kentucky'' ''Furniture'' ''Chair'' 50 1 0 5]
      = [\<lparr> customer_id = ''CG-12520'', customer_name = ''CG-12520'' \<rparr>,
         \<lparr> customer_id = ''CG-12520'', customer_name = ''CG-12520'' \<rparr>]"
    by (simp add: customers_def new_Set_def Set_add_def same_object_def map_new_def
        Array_sort_def order_def)
qed

section \<open>Analytics summary\<close>

text \<open>
  Claim C5. When the filters of /api/analytics match no record, the summary has
  totalOrders 0, uniqueCustomers 0, totalCategories 0 and an avgOrderValue that is NaN
  (the total 0 divided by the count 0), and topProducts and regionalPerformance are
  empty. The handler body has no throwing operation on this path: \<open>analytics\<close> returns
  this value.
\<close>

theorem analytics_of_no_records:
  assumes "filterData P salesData state fromDate toDate = []"
  shows "analytics P salesData state fromDate toDate =
          \<lparr> an_topProducts = [], an_regionalPerformance = [],
            an_summary = \<lparr> totalOrders = 0, uniqueCustomers = 0, avgOrderValue = NaN,
                           totalCategories = 0 \<rparr> \<rparr>"
  using assms
  by (simp add: analytics_def topProducts_def regionArray_def analytics_summary_def
      productPerformance_def regionalPerformance_def Object_values_def Object_entries_def
      Array_sort_def slice0_def new_Set_def)

theorem analytics_of_no_records_witness:
  "filterData isoDate
      [order ''2016-01-05'' ''CG-12520'' ''Texas'' ''Furniture'' ''Chair'' 100 1 0 10]
      (Some ''Ohio'') None None = []
   \<and> analytics isoDate
      [order ''2016-01-05'' ''CG-12520'' ''Texas'' ''Furniture'' ''Chair'' 100 1 0 10]
      (Some ''Ohio'') None None =
          \<lparr> an_topProducts = [], an_regionalPerformance = [],
            an_summary = \<lparr> totalOrders = 0, uniqueCustomers = 0, avgOrderValue = NaN,
                           totalCategories = 0 \<rparr> \<rparr>"
proof -
  have none: "filterData isoDate
      [order ''2016-01-05'' ''CG-12520'' ''Texas'' ''Furniture'' ''Chair'' 100 1 0 10]
      (Some ''Ohio'') None None = []"
    by (simp add: filterData_def js_not_def order_def)
  from none analytics_of_no_records [OF none] show ?thesis by blast
qed

section \<open>Grouping\<close>

lemma new_Set_snoc: "new_Set same (xs @ [x]) = Set_add same (new_Set same xs) x"
  by (simp add: new_Set_def)

lemma set_new_Set_eq: "set (new_Set (=) xs) = set xs"
  using foldl_Set_add_eq [of "[]" xs] by (simp add: new_Set_def)

lemma new_Set_firstOccurrences: "new_Set (=) xs = firstOccurrences xs"
proof (induction xs rule: rev_induct)
  case Nil
  then show ?case by (simp add: new_Set_def firstOccurrences_def)
next
  case (snoc x xs)
  then show ?case
    using set_new_Set_eq [of xs]
    by (auto simp add: new_Set_snoc Set_add_def firstOccurrences_def list_ex_iff)
qed

text \<open>Every grouping loop is a fold of an update at the record's key.\<close>

lemma update_keys_Set_add: "map fst (AList.update k v obj) = Set_add (=) (map fst obj) k"
  by (auto simp add: update_keys Set_add_def list_ex_iff)

lemma group_fold_keys:
  assumes "\<And>obj item. add obj item = AList.update (key item) (upd (map_of obj (key item)) item) obj"
  shows "map fst (foldl add obj xs) = foldl (Set_add (=)) (map fst obj) (map key xs)"
  by (induction xs arbitrary: obj) (simp_all add: assms update_keys_Set_add)

lemma group_fold_sum:
  fixes m :: "'e \<Rightarrow> 'n :: comm_monoid_add"
  assumes add: "\<And>obj item. add obj item = AList.update (key item) (upd (map_of obj (key item)) item) obj"
    and step: "\<And>prev item. m (upd prev item) = (case prev of None \<Rightarrow> 0 | Some e \<Rightarrow> m e) + w item"
  shows "(case map_of (foldl add obj xs) k of None \<Rightarrow> 0 | Some e \<Rightarrow> m e)
         = (case map_of obj k of None \<Rightarrow> 0 | Some e \<Rightarrow> m e)
           + sum_list (map w (filter (\<lambda>item. key item = k) xs))"
proof (induction xs arbitrary: obj)
  case Nil
  then show ?case by simp
next
  case (Cons x xs)
  show ?case
    unfolding foldl_Cons Cons.IH
    by (simp add: add update_conv' step add.assoc)
qed



lemma addSales_update:
  "addSales key obj item =
     AList.update (key item)
       ((\<lambda>prev item. (case prev of None \<Rightarrow> 0 | Some v \<Rightarrow> if v = 0 then 0 else v) + Sales item)
          (map_of obj (key item)) item) obj"
  by (simp add: addSales_def Let_def)

lemma groupSales_keys: "map fst (groupSales key fd) = firstOccurrences (map key fd)"
  unfolding groupSales_def
  using group_fold_keys [of "addSales key" key _ "[]" fd, OF addSales_update]
  by (simp add: new_Set_firstOccurrences [symmetric] new_Set_def)

lemma groupSales_distinct: "distinct (map fst (groupSales key fd))"
  by (simp add: groupSales_keys firstOccurrences_def)

lemma groupSales_total:
  assumes "(k, v) \<in> set (groupSales key fd)"
  shows "v = sum_list (map Sales (filter (\<lambda>item. key item = k) fd))"
proof -
  have m: "map_of (groupSales key fd) k = Some v"
    using assms groupSales_distinct by simp
  have "(case map_of (foldl (addSales key) [] fd) k of None \<Rightarrow> 0 | Some e \<Rightarrow> id e)
      = (case map_of [] k of None \<Rightarrow> 0 | Some e \<Rightarrow> id e)
        + sum_list (map Sales (filter (\<lambda>item. key item = k) fd))"
    by (rule group_fold_sum [OF addSales_update]) (simp split: option.splits)
  with m show ?thesis
    by (simp add: groupSales_def)
qed




lemma set_Object_entries: "set (Object_entries obj) = set obj"
  by (auto simp add: Object_entries_def)







lemma breakdown_entry:
  assumes "(k, n) \<in> set (roundEntries (groupSales key fd))"
  shows "n = Math_round (sum_list (map Sales (filter (\<lambda>item. key item = k) fd)))"
  using assms groupSales_total [of k _ key fd]
  by (auto simp add: roundEntries_def set_Object_entries)


















section \<open>Average order value\<close>




section \<open>Breakdowns and top-ten lists\<close>






section \<open>The calendar\<close>

lemma div_step:
  fixes a b :: int
  assumes "1 < b"
  shows "(a + 1) div b = a div b + (if (a + 1) mod b = 0 then 1 else 0)"
proof -
  have m: "0 \<le> a mod b" "a mod b < b" using assms by simp_all
  have e: "a + 1 = b * (a div b) + (a mod b + 1)" by simp
  show ?thesis
  proof (cases "a mod b + 1 = b")
    case True
    then have "a + 1 = b * (a div b + 1) + 0" using e by (simp add: algebra_simps)
    then have "(a + 1) div b = a div b + 1" "(a + 1) mod b = 0"
      using assms int_div_pos_eq [of "a + 1" b "a div b + 1" 0] int_mod_pos_eq [of "a + 1" b "a div b + 1" 0]
      by simp_all
    then show ?thesis by simp
  next
    case False
    with m have lt: "a mod b + 1 < b" by simp
    have "(a + 1) div b = a div b" "(a + 1) mod b = a mod b + 1"
      using e lt m int_div_pos_eq [of "a + 1" b "a div b" "a mod b + 1"]
        int_mod_pos_eq [of "a + 1" b "a div b" "a mod b + 1"]
      by simp_all
    then show ?thesis using m by simp
  qed
qed

lemma mod_shift:
  "((y::int) - 1968) mod 4 = 0 \<longleftrightarrow> y mod 4 = 0"
  "((y::int) - 1900) mod 100 = 0 \<longleftrightarrow> y mod 100 = 0"
  "((y::int) - 1600) mod 400 = 0 \<longleftrightarrow> y mod 400 = 0"
  using mod_mult_self1 [of y "- 492" 4] mod_mult_self1 [of y "- 19" 100]
    mod_mult_self1 [of y "- 4" 400]
  by simp_all

lemma mod_400_100: "(y::int) mod 400 = 0 \<Longrightarrow> y mod 100 = 0"
  using mod_mod_cancel [of 100 400 y] by simp

lemma mod_100_4: "(y::int) mod 100 = 0 \<Longrightarrow> y mod 4 = 0"
  using mod_mod_cancel [of 4 100 y] by simp

lemma DayFromYear_Suc: "DayFromYear (y + 1) = DayFromYear y + DaysInYear y"
proof -
  have a: "(y - 1968) div 4 = (y - 1969) div 4 + (if y mod 4 = 0 then 1 else 0)"
    using div_step [of 4 "y - 1969"] by (simp add: mod_shift)
  have b: "(y - 1900) div 100 = (y - 1901) div 100 + (if y mod 100 = 0 then 1 else 0)"
    using div_step [of 100 "y - 1901"] by (simp add: mod_shift)
  have c: "(y - 1600) div 400 = (y - 1601) div 400 + (if y mod 400 = 0 then 1 else 0)"
    using div_step [of 400 "y - 1601"] by (simp add: mod_shift)
  show ?thesis
    using mod_400_100 [of y] mod_100_4 [of y]
    by (auto simp add: DayFromYear_def DaysInYear_def a b c)
qed

lemma DaysInYear_range: "365 \<le> DaysInYear y \<and> DaysInYear y \<le> 366"
  by (simp add: DaysInYear_def)

lemma DayFromYear_mono: "y1 \<le> y2 \<Longrightarrow> DayFromYear y1 \<le> DayFromYear y2"
proof (induction y2 rule: int_ge_induct)
  case base
  then show ?case by simp
next
  case (step i)
  then show ?case
    using DayFromYear_Suc [of i] DaysInYear_range [of i] by simp
qed

lemma div_bounds:
  "0 < (b::int) \<Longrightarrow> b * (a div b) \<le> a \<and> a < b * (a div b) + b"
  using pos_mod_sign [of b a] pos_mod_bound [of b a] mult_div_mod_eq [of b a]
  by linarith

lemma DayFromYear_estimate:
  "400 * DayFromYear y \<le> 146097 * (y - 1970) + 589"
  "146097 * (y - 1970) - 506 \<le> 400 * DayFromYear y"
  unfolding DayFromYear_def
  using div_bounds [of 4 "y - 1969"] div_bounds [of 100 "y - 1901"] div_bounds [of 400 "y - 1601"]
  by simp_all

lemma YearFromTime_bounds:
  "DayFromYear (YearFromTime t) \<le> Day t \<and> Day t < DayFromYear (YearFromTime t + 1)"
proof -
  define d where "d = Day t"
  define y where "y = 1970 + (400 * d) div 146097"
  have q: "146097 * (y - 1970) \<le> 400 * d" "400 * d < 146097 * (y - 1970) + 146097"
    using div_bounds [of 146097 "400 * d"] by (simp_all add: y_def)
  have lo: "DayFromYear (y - 1) \<le> d"
    using DayFromYear_estimate(1) [of "y - 1"] q by simp
  have hi: "d < DayFromYear (y + 2)"
    using DayFromYear_estimate(2) [of "y + 2"] q by simp
  have Y: "YearFromTime t =
      (if DayFromYear (y + 1) \<le> d then y + 1 else if DayFromYear y \<le> d then y else y - 1)"
    by (simp add: YearFromTime_def Let_def d_def y_def)
  have hi': "d < DayFromYear (y + 1 + 1)" and lo': "DayFromYear (y - 1) \<le> d"
    and e: "y - 1 + 1 = y"
    using hi lo by (simp_all add: add.commute)
  consider "DayFromYear (y + 1) \<le> d" | "\<not> DayFromYear (y + 1) \<le> d" "DayFromYear y \<le> d"
    | "\<not> DayFromYear (y + 1) \<le> d" "\<not> DayFromYear y \<le> d"
    by blast
  then show ?thesis
  proof cases
    case 1
    then have "YearFromTime t = y + 1" by (simp add: Y)
    then show ?thesis unfolding d_def [symmetric] using 1 hi' by simp
  next
    case 2
    then have "YearFromTime t = y" by (simp add: Y)
    then show ?thesis unfolding d_def [symmetric] using 2 by simp
  next
    case 3
    then have "YearFromTime t = y - 1" by (simp add: Y)
    then show ?thesis unfolding d_def [symmetric] using 3 lo' by simp
  qed
qed

text \<open>The definition of the language: the largest year that starts at or before \<open>t\<close>.\<close>

lemma YearFromTime_largest:
  "TimeFromYear (YearFromTime t) \<le> t \<and> (\<forall>y. TimeFromYear y \<le> t \<longrightarrow> y \<le> YearFromTime t)"
proof (intro conjI allI impI)
  have "msPerDay * DayFromYear (YearFromTime t) \<le> msPerDay * Day t"
    using YearFromTime_bounds [of t] by (simp add: msPerDay_def)
  also have "\<dots> \<le> t"
    using div_bounds [of msPerDay t] by (simp add: Day_def msPerDay_def)
  finally show "TimeFromYear (YearFromTime t) \<le> t"
    by (simp add: TimeFromYear_def)
next
  fix y assume "TimeFromYear y \<le> t"
  then have "msPerDay * DayFromYear y < msPerDay * (Day t + 1)"
    using div_bounds [of msPerDay t] by (simp add: TimeFromYear_def Day_def msPerDay_def)
  then have "DayFromYear y \<le> Day t"
    by (simp add: msPerDay_def)
  show "y \<le> YearFromTime t"
  proof (rule ccontr)
    assume "\<not> y \<le> YearFromTime t"
    then have "DayFromYear (YearFromTime t + 1) \<le> DayFromYear y"
      by (intro DayFromYear_mono) simp
    with YearFromTime_bounds [of t] \<open>DayFromYear y \<le> Day t\<close> show False by simp
  qed
qed











section \<open>Decimal strings and their order\<close>

lemma of_char_digit_char: "n < 10 \<Longrightarrow> (of_char (digit_char n) :: nat) = 48 + n"
  by (simp add: digit_char_def)



lemma is_digit_digit_char: "n < 10 \<Longrightarrow> is_digit (digit_char n)"
  by (simp add: is_digit_def of_char_digit_char)

lemma nat_toString_digits: "list_all is_digit (nat_toString n)"
proof (induction n rule: nat_toString.induct)
  case (1 n)
  show ?case
  proof (cases "n < 10")
    case True
    then show ?thesis by (simp add: nat_toString.simps [of n] is_digit_digit_char)
  next
    case False
    with 1 show ?thesis by (simp add: nat_toString.simps [of n] is_digit_digit_char)
  qed
qed

lemma padStart_digits: "list_all is_digit s \<Longrightarrow> list_all is_digit (padStart n (CHR ''0'') s)"
  by (auto simp add: padStart_def list_all_iff is_digit_def)

lemma not_digit: "\<not> is_digit (CHR ''T'')" "\<not> is_digit (CHR ''-'')" "\<not> is_digit (CHR ''+'')"
  by (simp_all add: is_digit_def)

lemma digits_no_T: "list_all is_digit s \<Longrightarrow> CHR ''T'' \<notin> set s"
  using not_digit(1) by (auto simp: list_all_iff)

lemma isoYear_no_T: "CHR ''T'' \<notin> set (isoYear y)"
  using digits_no_T [OF padStart_digits [OF nat_toString_digits]]
  by (simp add: isoYear_def)

lemma pad2_no_T: "CHR ''T'' \<notin> set (pad2 n)"
  unfolding pad2_def by (rule digits_no_T [OF padStart_digits [OF nat_toString_digits]])

lemma split_first_append: "c \<notin> set xs \<Longrightarrow> split_first c (xs @ c # ys) = xs"
  by (auto simp add: split_first_def takeWhile_tail)

lemma daily_key:
  assumes "period \<noteq> ''monthly''" "period \<noteq> ''yearly''"
  shows "periodKey tza period (Some t) =
         Inr (isoYear (YearFromTime t) @ ''-'' @ pad2 (MonthFromTime t + 1) @ ''-'' @ pad2 (DateFromTime t))"
proof -
  let ?d = "isoYear (YearFromTime t) @ ''-'' @ pad2 (MonthFromTime t + 1) @ ''-'' @ pad2 (DateFromTime t)"
  have "CHR ''T'' \<notin> set ?d"
    by (simp add: isoYear_no_T pad2_no_T)
  from split_first_append [OF this] show ?thesis
    using assms by (simp add: periodKey_def toISOString_def)
qed

lemma nat_toString_1: "n < 10 \<Longrightarrow> nat_toString n = [digit_char n]"
  by (simp add: nat_toString.simps [of n])

lemma nat_toString_2:
  "10 \<le> n \<Longrightarrow> n < 100 \<Longrightarrow> nat_toString n = [digit_char (n div 10), digit_char (n mod 10)]"
  by (simp add: nat_toString.simps [of n] nat_toString_1)

lemma nat_toString_3:
  "100 \<le> n \<Longrightarrow> n < 1000 \<Longrightarrow>
     nat_toString n = [digit_char (n div 100), digit_char (n div 10 mod 10), digit_char (n mod 10)]"
  by (simp add: nat_toString.simps [of n] nat_toString_2 div_mult2_eq [symmetric])

lemma nat_toString_4:
  "1000 \<le> n \<Longrightarrow> n < 10000 \<Longrightarrow>
     nat_toString n = [digit_char (n div 1000), digit_char (n div 100 mod 10),
                       digit_char (n div 10 mod 10), digit_char (n mod 10)]"
  by (simp add: nat_toString.simps [of n] nat_toString_3 div_mult2_eq [symmetric])

lemma digit_chars:
  "digit_char 0 = CHR ''0''" "digit_char 1 = CHR ''1''" "digit_char 2 = CHR ''2''"
  "digit_char 3 = CHR ''3''" "digit_char 4 = CHR ''4''" "digit_char 5 = CHR ''5''"
  "digit_char 6 = CHR ''6''" "digit_char 7 = CHR ''7''" "digit_char 8 = CHR ''8''"
  "digit_char 9 = CHR ''9''" "digit_char (Suc 0) = CHR ''1''"
  by code_simp+

lemma pad2_digits:
  assumes "0 \<le> n" "n < 100"
  shows "pad2 n = [digit_char (nat n div 10), digit_char (nat n mod 10)]"
proof (cases "n < 10")
  case True
  with assms show ?thesis
    by (simp add: pad2_def padStart_def nat_toString_1 digit_chars)
next
  case False
  with assms show ?thesis
    by (simp add: pad2_def padStart_def nat_toString_2)
qed





lemma length_year: "1000 \<le> n \<Longrightarrow> n < 10000 \<Longrightarrow> length (nat_toString n) = 4"
  by (simp add: nat_toString_4)






lemma isoYear_four_digits: "1000 \<le> y \<Longrightarrow> y \<le> 9999 \<Longrightarrow> isoYear y = nat_toString (nat y)"
  by (simp add: isoYear_def padStart_def length_year)







section \<open>Period keys\<close>

lemma sample_times:
  "YearFromTime 1451952000000 = 2016" "YearFromTime 1453248000000 = 2016"
  "MonthFromTime 1451952000000 = 0" "MonthFromTime 1453248000000 = 0"
  "DateFromTime 1451952000000 = 5" "DateFromTime 1453248000000 = 20"
  by (simp_all add: YearFromTime_def Day_def msPerDay_def DayFromYear_def
      MonthFromTime_def DateFromTime_def InLeapYear_def DayWithinYear_def DaysInYear_def
      monthOfDay_def monthStart_def)

lemma sample_daily_keys:
  "periodKey UTC ''daily'' (Some 1451952000000) = Inr ''2016-01-05''"
  "periodKey UTC ''daily'' (Some 1453248000000) = Inr ''2016-01-20''"
  by (simp_all add: daily_key isoYear_four_digits sample_times nat_toString_4 pad2_digits
      digit_chars)

lemma sample_trend:
  "trendArray compareStrings isoDate UTC ''daily''
    [order ''2016-01-20'' ''DV-13045'' ''Texas'' ''Furniture'' ''Table'' 200 2 (1 / 5) 20,
     order ''2016-01-05'' ''CG-12520'' ''Texas'' ''Furniture'' ''Chair'' 100 1 0 10]
   = Inr [\<lparr> t_period = ''2016-01-05'', t_sales = 100, t_profit = 10, t_quantity = 1 \<rparr>,
          \<lparr> t_period = ''2016-01-20'', t_sales = 200, t_profit = 20, t_quantity = 2 \<rparr>]"
  by code_simp




section \<open>Sales trend\<close>

lemma periodKey_fallback:
  "period \<noteq> ''monthly'' \<Longrightarrow> period \<noteq> ''yearly'' \<Longrightarrow> periodKey tza period = periodKey tza ''daily''"
  by (rule ext) (simp add: periodKey_def)

lemma addTrend_fallback:
  "period \<noteq> ''monthly'' \<Longrightarrow> period \<noteq> ''yearly'' \<Longrightarrow> addTrend P tza period = addTrend P tza ''daily''"
  by (intro ext) (simp add: addTrend_def periodKey_fallback [of period])

text \<open>
  Claim C10. For every period string other than \<open>monthly\<close> and \<open>yearly\<close>, the trend
  handler returns what it returns for \<open>daily\<close> (the same entries, or the same error on
  an invalid date): the key of every record is the key of \<open>daily\<close>, which for a valid
  date is the date part of its ISO string, year, month and day joined by hyphens.
\<close>

theorem unrecognized_period_is_daily:
  assumes "period \<noteq> ''monthly''" and "period \<noteq> ''yearly''"
  shows "sales_trend lc P tza salesData state fromDate toDate customerId (Some period)
          = sales_trend lc P tza salesData state fromDate toDate customerId (Some ''daily'')
         \<and> periodKey tza period date = periodKey tza ''daily'' date
         \<and> periodKey tza period (Some t)
             = Inr (isoYear (YearFromTime t) @ ''-'' @ pad2 (MonthFromTime t + 1) @ ''-''
                    @ pad2 (DateFromTime t))"
  using assms
  by (simp add: sales_trend_def trendArray_def addTrend_fallback [of period]
      periodKey_fallback [of period] daily_key)

theorem unrecognized_period_is_daily_witness:
  "''monthy'' \<noteq> ''monthly'' \<and> ''monthy'' \<noteq> ''yearly''
   \<and> sales_trend compareStrings isoDate UTC
        [order ''2016-01-20'' ''DV-13045'' ''Texas'' ''Furniture'' ''Table'' 200 2 (1 / 5) 20,
         order ''2016-01-05'' ''CG-12520'' ''Texas'' ''Furniture'' ''Chair'' 100 1 0 10]
        None None None None (Some ''monthy'')
      = Inr [\<lparr> t_period = ''2016-01-05'', t_sales = 100, t_profit = 10, t_quantity = 1 \<rparr>,
             \<lparr> t_period = ''2016-01-20'', t_sales = 200, t_profit = 20, t_quantity = 2 \<rparr>]
   \<and> periodKey UTC ''monthy'' (Some 1451952000000) = Inr ''2016-01-05''"
proof -
  have typo: "''monthy'' \<noteq> ''monthly''" "''monthy'' \<noteq> ''yearly''"
    by simp_all
  have daily: "sales_trend compareStrings isoDate UTC
        [order ''2016-01-20'' ''DV-13045'' ''Texas'' ''Furniture'' ''Table'' 200 2 (1 / 5) 20,
         order ''2016-01-05'' ''CG-12520'' ''Texas'' ''Furniture'' ''Chair'' 100 1 0 10]
        None None None None (Some ''daily'')
      = Inr [\<lparr> t_period = ''2016-01-05'', t_sales = 100, t_profit = 10, t_quantity = 1 \<rparr>,
             \<lparr> t_period = ''2016-01-20'', t_sales = 200, t_profit = 20, t_quantity = 2 \<rparr>]"
    using sample_trend
    by (simp add: sales_trend_def applyFilters_def filterData_def filterCustomer_def js_not_def)
  show ?thesis
    using unrecognized_period_is_daily [OF typo, of compareStrings isoDate UTC
        "[order ''2016-01-20'' ''DV-13045'' ''Texas'' ''Furniture'' ''Table'' 200 2 (1 / 5) 20,
          order ''2016-01-05'' ''CG-12520'' ''Texas'' ''Furniture'' ''Chair'' 100 1 0 10]"
        None None None None "Some 1451952000000" 1451952000000]
      daily typo
    by (simp add: sample_daily_keys)
qed

end
